theory Spec2Isabelle
  imports Complex_Main "HOL-Library.Multiset"
begin

section \<open>Python values and errors\<close>

text \<open>
  Exceptions of the Python source are values: a function that can raise returns
  \<open>py_error + 'a\<close>, with \<open>Inl\<close> carrying the exception and its message.
\<close>

datatype py_error =
    RuntimeError string
  | ValueError string
  | KeyError string
  | AttributeError string
  | ZeroDivisionError string
  | CsvError string
  | OSError string
  | OverflowError string

section \<open>Domain entities (src/domain/entities.py)\<close>

subsection \<open>Strings\<close>

text \<open>
  A Python \<open>str\<close> is a list of characters, each read as a code point \<open>U+0000..U+00FF\<close>.
  \<open>str.strip()\<close> removes leading and trailing white space: the code points for which
  \<open>str.isspace\<close> holds, in this range \<open>0x09..0x0D\<close>, \<open>0x1C..0x20\<close>, \<open>0x85\<close> and \<open>0xA0\<close>.
\<close>

definition py_isspace :: "char \<Rightarrow> bool" where
  "py_isspace c =
     (let n = (of_char c :: nat)
      in (9 \<le> n \<and> n \<le> 13) \<or> (28 \<le> n \<and> n \<le> 32) \<or> n = 133 \<or> n = 160)"

definition py_strip :: "string \<Rightarrow> string" where
  "py_strip s = rev (dropWhile py_isspace (rev (dropWhile py_isspace s)))"

text \<open>
  \<open>str.upper()\<close>, code point by code point: \<open>a..z\<close> and the Latin-1 letters
  \<open>U+00E0..U+00FE\<close> (without the division sign \<open>U+00F7\<close>) move down by 32, and
  \<open>U+00DF\<close> becomes \<open>SS\<close>. The upper-case forms of \<open>U+00B5\<close> and \<open>U+00FF\<close> lie outside
  the range of the model; the model leaves these two code points as they are.
\<close>

definition upper_char :: "char \<Rightarrow> string" where
  "upper_char c =
     (let n = (of_char c :: nat)
      in if 97 \<le> n \<and> n \<le> 122 then [char_of (n - 32)]
         else if n = 223 then ''SS''
         else if 224 \<le> n \<and> n \<le> 254 \<and> n \<noteq> 247 then [char_of (n - 32)]
         else [c])"

definition py_upper :: "string \<Rightarrow> string" where
  "py_upper s = concat (map upper_char s)"

subsection \<open>SchoolClassification\<close>

text \<open>
  The class wraps one string, its \<open>value\<close>; equality of two classifications is
  equality of their values. \<open>None\<close> as argument of \<open>from_text\<close> is \<open>None\<close> here.
\<close>

datatype SchoolClassification = SchoolClassification (cls_value: string)

definition PEI :: string where
  "PEI = ''PEI''"

definition EE :: string where
  "EE = ''EE''"

definition UNKNOWN :: string where
  "UNKNOWN = ''UNKNOWN''"

definition from_text :: "string option \<Rightarrow> SchoolClassification" where
  "from_text text =
     (case text of
        None \<Rightarrow> SchoolClassification UNKNOWN
      | Some t \<Rightarrow>
          if t = [] then SchoolClassification UNKNOWN
          else (let t' = py_upper (py_strip t)
                in if t' = ''PEI'' then SchoolClassification PEI
                   else if t' = ''EE'' then SchoolClassification EE
                   else SchoolClassification t'))"

subsection \<open>ProcessingStatus and SchoolData\<close>

datatype ProcessingStatus = SUCCESS | ERROR | SKIPPED

fun status_value :: "ProcessingStatus \<Rightarrow> string" where
  "status_value SUCCESS = ''SUCCESS''"
| "status_value ERROR = ''ERROR''"
| "status_value SKIPPED = ''SKIPPED''"

text \<open>
  The dataclass \<open>SchoolData\<close>. \<open>extraction_timestamp\<close> holds the text
  \<open>datetime.isoformat()\<close> gives for the time of creation; the clock is a parameter of
  the functions that create a record.
\<close>

record SchoolData =
  name :: string
  classification :: SchoolClassification
  detail_url :: string
  extraction_timestamp :: string
  status :: ProcessingStatus
  teaching_directorate :: string
  neighborhood :: string
  municipality :: string
  phone :: string
  email :: string
  ideb_score_final_years :: string
  idesp_score_final_years :: string
  ideb_score_high_school :: string
  idesp_score_high_school :: string
  total_students :: string
  age_06_10_final_years :: string
  age_11_14_final_years :: string
  age_15_17_final_years :: string
  age_18_plus_final_years :: string
  age_06_10_high_school :: string
  age_11_14_high_school :: string
  age_15_17_high_school :: string
  age_18_plus_high_school :: string
  total_classes :: string
  classes_final_years :: string
  classes_high_school :: string
  total_classrooms :: string
  error_message :: "string option"

text \<open>\<open>to_dict\<close>: the keys in insertion order, each with its text.\<close>

definition to_dict :: "SchoolData \<Rightarrow> (string \<times> string) list" where
  "to_dict d =
     [(''school_name'', name d),
      (''classification'', cls_value (classification d)),
      (''detail_url'', detail_url d),
      (''extraction_timestamp'', extraction_timestamp d),
      (''status'', status_value (status d)),
      (''teaching_directorate'', teaching_directorate d),
      (''neighborhood'', neighborhood d),
      (''municipality'', municipality d),
      (''phone'', phone d),
      (''email'', email d),
      (''ideb_score_final_years'', ideb_score_final_years d),
      (''idesp_score_final_years'', idesp_score_final_years d),
      (''ideb_score_high_school'', ideb_score_high_school d),
      (''idesp_score_high_school'', idesp_score_high_school d),
      (''total_students'', total_students d),
      (''age_06_10_final_years'', age_06_10_final_years d),
      (''age_11_14_final_years'', age_11_14_final_years d),
      (''age_15_17_final_years'', age_15_17_final_years d),
      (''age_18_plus_final_years'', age_18_plus_final_years d),
      (''age_06_10_high_school'', age_06_10_high_school d),
      (''age_11_14_high_school'', age_11_14_high_school d),
      (''age_15_17_high_school'', age_15_17_high_school d),
      (''age_18_plus_high_school'', age_18_plus_high_school d),
      (''total_classes'', total_classes d),
      (''classes_final_years'', classes_final_years d),
      (''classes_high_school'', classes_high_school d),
      (''total_classrooms'', total_classrooms d),
      (''error_message'', (case error_message d of None \<Rightarrow> '''' | Some m \<Rightarrow> m))]"

subsection \<open>ProcessingStats\<close>

text \<open>
  The dataclass \<open>ProcessingStats\<close>: seven integer counters, all initially zero.
  Python integers are unbounded, hence \<open>int\<close>.
\<close>

record ProcessingStats =
  total_processed :: int
  successful :: int
  errors :: int
  skipped :: int
  pages_processed :: int
  total_pages :: int
  total_institutions :: int

definition ProcessingStats_init :: ProcessingStats where
  "ProcessingStats_init =
     \<lparr>total_processed = 0, successful = 0, errors = 0, skipped = 0,
      pages_processed = 0, total_pages = 0, total_institutions = 0\<rparr>"

text \<open>
  Python floats are not HOL numbers: the float operations \<open>success_rate\<close> uses are
  parameters, and what is proved holds for every arithmetic, IEEE doubles included.
  \<open>float_zero\<close> is the literal \<open>0.0\<close>; \<open>int_truediv a b\<close> is the rounded quotient \<open>a / b\<close>
  gives for integers with \<open>b\<close> not zero, or \<open>None\<close> when the quotient is too large for a
  float; \<open>mul_int x n\<close> is \<open>x * n\<close> for a float and an integer.
\<close>

record 'f float_ops =
  float_zero :: 'f
  int_truediv :: "int \<Rightarrow> int \<Rightarrow> 'f option"
  mul_int :: "'f \<Rightarrow> int \<Rightarrow> 'f"

text \<open>
  Python's true division \<open>a / b\<close> on integers: \<open>ZeroDivisionError\<close> for a zero divisor,
  \<open>OverflowError\<close> for a quotient beyond the floats.
\<close>

definition py_truediv :: "'f float_ops \<Rightarrow> int \<Rightarrow> int \<Rightarrow> py_error + 'f" where
  "py_truediv ops a b =
     (if b = 0 then Inl (ZeroDivisionError ''division by zero'')
      else (case int_truediv ops a b of
              None \<Rightarrow> Inl (OverflowError ''integer division result too large for a float'')
            | Some q \<Rightarrow> Inr q))"

text \<open>
  The property \<open>success_rate\<close>. It is a function of the record, not one of its fields:
  every read computes it from the counters as they are.
\<close>

definition success_rate :: "'f float_ops \<Rightarrow> ProcessingStats \<Rightarrow> py_error + 'f" where
  "success_rate ops s =
     (if total_processed s = 0 then Inr (float_zero ops)
      else (case py_truediv ops (successful s) (total_processed s) of
              Inl e \<Rightarrow> Inl e
            | Inr q \<Rightarrow> Inr (mul_int ops q 100)))"

definition update_success :: "ProcessingStats \<Rightarrow> ProcessingStats" where
  "update_success s =
     s\<lparr>total_processed := total_processed s + 1, successful := successful s + 1\<rparr>"

definition update_error :: "ProcessingStats \<Rightarrow> ProcessingStats" where
  "update_error s =
     s\<lparr>total_processed := total_processed s + 1, errors := errors s + 1\<rparr>"

definition update_skipped :: "ProcessingStats \<Rightarrow> ProcessingStats" where
  "update_skipped s =
     s\<lparr>total_processed := total_processed s + 1, skipped := skipped s + 1\<rparr>"

text \<open>A run applies one of the three updates per record outcome.\<close>

datatype outcome_update = UpdSuccess | UpdError | UpdSkipped

fun apply_update :: "ProcessingStats \<Rightarrow> outcome_update \<Rightarrow> ProcessingStats" where
  "apply_update s UpdSuccess = update_success s"
| "apply_update s UpdError = update_error s"
| "apply_update s UpdSkipped = update_skipped s"

definition apply_updates :: "ProcessingStats \<Rightarrow> outcome_update list \<Rightarrow> ProcessingStats" where
  "apply_updates s us = foldl apply_update s us"

definition stats_balanced :: "ProcessingStats \<Rightarrow> bool" where
  "stats_balanced s \<longleftrightarrow> total_processed s = successful s + errors s + skipped s"

definition stats_le :: "ProcessingStats \<Rightarrow> ProcessingStats \<Rightarrow> bool" where
  "stats_le a b \<longleftrightarrow>
     total_processed a \<le> total_processed b \<and> successful a \<le> successful b \<and>
     errors a \<le> errors b \<and> skipped a \<le> skipped b \<and>
     pages_processed a \<le> pages_processed b \<and> total_pages a \<le> total_pages b \<and>
     total_institutions a \<le> total_institutions b"

section \<open>Application services (src/application/services.py)\<close>

subsection \<open>BatchConfig and BatchProcessor.create_batches\<close>

text \<open>The dataclass \<open>BatchConfig\<close>; the two delays are Python floats, here reals.\<close>

record BatchConfig =
  start_page :: int
  end_page :: int
  batch_name :: string
  max_concurrent :: int
  retry_attempts :: int
  delay_between_requests :: real
  delay_between_pages :: real

text \<open>
  Python's \<open>range(start, stop, step)\<close>: ascending for a positive step, descending for a
  negative one, \<open>ValueError\<close> for step zero.
\<close>

function py_range_up :: "int \<Rightarrow> int \<Rightarrow> int \<Rightarrow> int list" where
  "py_range_up i stop step =
     (if 0 < step \<and> i < stop then i # py_range_up (i + step) stop step else [])"
  by pat_completeness auto
termination
  by (relation "measure (\<lambda>(i, stop, step). nat (stop - i))") auto

function py_range_down :: "int \<Rightarrow> int \<Rightarrow> int \<Rightarrow> int list" where
  "py_range_down i stop step =
     (if step < 0 \<and> stop < i then i # py_range_down (i + step) stop step else [])"
  by pat_completeness auto
termination
  by (relation "measure (\<lambda>(i, stop, step). nat (i - stop))") auto

definition py_range :: "int \<Rightarrow> int \<Rightarrow> int \<Rightarrow> py_error + int list" where
  "py_range start stop step =
     (if step = 0 then Inl (ValueError ''range() arg 3 must not be zero'')
      else if 0 < step then Inr (py_range_up start stop step)
      else Inr (py_range_down start stop step))"

text \<open>The format specification \<open>03d\<close>: decimal digits, zero-padded to width three.\<close>

definition digit_char :: "nat \<Rightarrow> char" where
  "digit_char d = char_of (48 + d)"

function digits10 :: "nat \<Rightarrow> string" where
  "digits10 n = (if n < 10 then [digit_char n] else digits10 (n div 10) @ [digit_char (n mod 10)])"
  by pat_completeness auto
termination
  by (relation "measure id") auto

definition format_03d :: "int \<Rightarrow> string" where
  "format_03d n =
     (if n < 0
      then CHR ''-'' # replicate (2 - length (digits10 (nat (- n)))) CHR ''0'' @ digits10 (nat (- n))
      else replicate (3 - length (digits10 (nat n))) CHR ''0'' @ digits10 (nat n))"

text \<open>
  The body of the \<open>for\<close> loop of \<open>create_batches\<close>, over the start pages the range
  yields, with the running \<open>batch_number\<close>.
\<close>

fun batches_loop :: "int list \<Rightarrow> int \<Rightarrow> int \<Rightarrow> int \<Rightarrow> BatchConfig list" where
  "batches_loop [] batch_number n_pages batch_size = []"
| "batches_loop (start # rest) batch_number n_pages batch_size =
     \<lparr>start_page = start,
      end_page = min (start + batch_size - 1) n_pages,
      batch_name = ''BATCH_'' @ format_03d batch_number,
      max_concurrent = 12,
      retry_attempts = 3,
      delay_between_requests = 0.4,
      delay_between_pages = 1.5\<rparr>
     # batches_loop rest (batch_number + 1) n_pages batch_size"

definition create_batches :: "int \<Rightarrow> int \<Rightarrow> py_error + BatchConfig list" where
  "create_batches n_pages batch_size =
     (case py_range 1 (n_pages + 1) batch_size of
        Inl e \<Rightarrow> Inl e
      | Inr starts \<Rightarrow> Inr (batches_loop starts 1 n_pages batch_size))"

text \<open>The pages a batch covers.\<close>

definition pages_of :: "BatchConfig \<Rightarrow> int set" where
  "pages_of c = {start_page c .. end_page c}"

text \<open>
  The batch expected at position \<open>k\<close> (from 0) of the plan for \<open>n\<close> pages in windows of
  \<open>b\<close>; used to state the closed form of \<open>create_batches\<close>.
\<close>

definition nth_batch :: "int \<Rightarrow> int \<Rightarrow> nat \<Rightarrow> BatchConfig" where
  "nth_batch n b k =
     \<lparr>start_page = 1 + int k * b, end_page = min ((int k + 1) * b) n,
      batch_name = ''BATCH_'' @ format_03d (int k + 1),
      max_concurrent = 12, retry_attempts = 3,
      delay_between_requests = 0.4, delay_between_pages = 1.5\<rparr>"

subsection \<open>BatchProcessor.merge_stats\<close>

text \<open>
  \<open>merge_stats\<close> mutates \<open>self.stats\<close> (first argument, returned updated) from
  \<open>batch_stats\<close> (second argument). In every call of the source the two are different
  objects (the batch processor's totals and the school processor's stats).
\<close>

definition merge_stats :: "ProcessingStats \<Rightarrow> ProcessingStats \<Rightarrow> ProcessingStats" where
  "merge_stats self batch_stats =
     self\<lparr>total_processed := total_processed self + total_processed batch_stats,
          successful := successful self + successful batch_stats,
          errors := errors self + errors batch_stats,
          skipped := skipped self + skipped batch_stats,
          pages_processed := pages_processed self + pages_processed batch_stats\<rparr>"

definition merge_all :: "ProcessingStats \<Rightarrow> ProcessingStats list \<Rightarrow> ProcessingStats" where
  "merge_all self bs = foldl merge_stats self bs"

definition counters :: "ProcessingStats \<Rightarrow> int \<times> int \<times> int \<times> int \<times> int" where
  "counters s = (total_processed s, successful s, errors s, skipped s, pages_processed s)"

section \<open>Storage (src/infrastructure/storage.py)\<close>

subsection \<open>Text files\<close>

text \<open>
  A file object opened for writing: its path, the text written but not yet flushed, and
  whether it has been closed. The file system is a map from paths to the text the
  operating system holds; no other process touches the files. Writing to, flushing or
  taking the descriptor of a closed file raises \<open>ValueError\<close>; closing a closed file does
  nothing. Written text stays in the buffer until a flush; the buffered writer of Python
  may hand text to the operating system earlier, once its buffer is full, which changes
  what the disk holds between two flushes and nothing after one.
\<close>

record file_obj =
  f_path :: string
  f_buffer :: string
  f_closed :: bool

definition closed_file_error :: py_error where
  "closed_file_error = ValueError ''I/O operation on closed file.''"

definition file_write :: "file_obj \<Rightarrow> string \<Rightarrow> py_error + file_obj" where
  "file_write f txt =
     (if f_closed f then Inl closed_file_error
      else Inr (f\<lparr>f_buffer := f_buffer f @ txt\<rparr>))"

definition file_flush ::
  "file_obj \<Rightarrow> (string \<rightharpoonup> string) \<Rightarrow> py_error + file_obj \<times> (string \<rightharpoonup> string)" where
  "file_flush f d =
     (if f_closed f then Inl closed_file_error
      else Inr (f\<lparr>f_buffer := []\<rparr>,
                d(f_path f \<mapsto> (case d (f_path f) of None \<Rightarrow> [] | Some c \<Rightarrow> c) @ f_buffer f)))"

definition file_fileno :: "file_obj \<Rightarrow> py_error + string" where
  "file_fileno f = (if f_closed f then Inl closed_file_error else Inr (f_path f))"

definition file_close ::
  "file_obj \<Rightarrow> (string \<rightharpoonup> string) \<Rightarrow> file_obj \<times> (string \<rightharpoonup> string)" where
  "file_close f d =
     (case file_flush f d of
        Inl e \<Rightarrow> (f, d)
      | Inr (f', d') \<Rightarrow> (f'\<lparr>f_closed := True\<rparr>, d'))"

subsection \<open>The csv writer\<close>

text \<open>
  \<open>csv.DictWriter\<close> with the default dialect: comma, double quote, minimal quoting,
  line terminator CR LF. A field is quoted when it holds a comma, a quote or a line
  break; a quote inside is doubled. A record that would be empty is written as two
  quotes.
\<close>

definition CR :: char where
  "CR = CHR 0x0D"

definition LF :: char where
  "LF = CHR 0x0A"

definition csv_special :: "char \<Rightarrow> bool" where
  "csv_special c \<longleftrightarrow> c = CHR '','' \<or> c = CHR 0x22 \<or> c = CR \<or> c = LF"

definition csv_field :: "string \<Rightarrow> string" where
  "csv_field f =
     (if list_ex csv_special f
      then CHR 0x22 # concat (map (\<lambda>c. if c = CHR 0x22 then [c, c] else [c]) f) @ [CHR 0x22]
      else f)"

fun join_fields :: "string list \<Rightarrow> string" where
  "join_fields [] = []"
| "join_fields [f] = f"
| "join_fields (f # g # fs) = f @ CHR '','' # join_fields (g # fs)"

definition csv_record :: "string list \<Rightarrow> string" where
  "csv_record fs =
     (let body = join_fields (map csv_field fs)
      in (if fs \<noteq> [] \<and> body = [] then [CHR 0x22, CHR 0x22] else body) @ [CR, LF])"

text \<open>
  \<open>DictWriter._dict_to_list\<close>: a key outside the field names raises; a field name the
  dictionary lacks is written as the empty string.
\<close>

definition dict_to_list :: "string list \<Rightarrow> (string \<times> string) list \<Rightarrow> py_error + string list" where
  "dict_to_list fieldnames rowdict =
     (if list_ex (\<lambda>k. k \<notin> set fieldnames) (map fst rowdict)
      then Inl (ValueError ''dict contains fields not in fieldnames'')
      else Inr (map (\<lambda>k. case map_of rowdict k of None \<Rightarrow> [] | Some v \<Rightarrow> v) fieldnames))"

subsection \<open>CSVStorage\<close>

text \<open>
  The object's attributes \<open>output_dir\<close>, \<open>filename\<close>, \<open>_csv_writer\<close> (the writer's field
  names; it writes to the object in \<open>_csv_file\<close>) and \<open>_csv_file\<close>, together with the
  part of the world its methods act on: the file system \<open>disk\<close> and the list of paths
  \<open>os.fsync\<close> has been called for. A method returns the exception it raised, if any,
  with the state it leaves. The lock and the log lines are not modelled.
\<close>

record CSVStorage =
  output_dir :: string
  filename :: "string option"
  csv_writer :: "string list option"
  csv_file :: "file_obj option"
  disk :: "string \<rightharpoonup> string"
  fsyncs :: "string list"

definition CSVStorage_init :: "string \<Rightarrow> (string \<rightharpoonup> string) \<Rightarrow> CSVStorage" where
  "CSVStorage_init dir d =
     \<lparr>output_dir = dir, filename = None, csv_writer = None, csv_file = None,
      disk = d, fsyncs = []\<rparr>"

definition fieldnames :: "string list" where
  "fieldnames =
     [''school_name'', ''classification'', ''detail_url'', ''extraction_timestamp'',
      ''status'', ''teaching_directorate'', ''neighborhood'', ''municipality'', ''phone'',
      ''email'', ''ideb_score_final_years'', ''idesp_score_final_years'',
      ''ideb_score_high_school'', ''idesp_score_high_school'', ''total_students'',
      ''age_06_10_final_years'', ''age_11_14_final_years'', ''age_15_17_final_years'',
      ''age_18_plus_final_years'', ''age_06_10_high_school'', ''age_11_14_high_school'',
      ''age_15_17_high_school'', ''age_18_plus_high_school'', ''total_classes'',
      ''classes_final_years'', ''classes_high_school'', ''total_classrooms'',
      ''error_message'']"

text \<open>
  \<open>initialize_csv\<close>: \<open>timestamp\<close> is the text of the current time in the format
  \<open>%Y%m%d_%H%M%S\<close>. Opening with mode \<open>w\<close> creates or empties the file; the header row
  goes to the file object's buffer. The path is the directory, a slash and the file
  name: what \<open>pathlib\<close> gives for a directory written without a trailing slash (as the
  default \<open>results\<close>) and a relative file name. Failure of \<open>open\<close> and the fate of a file
  object still open from an earlier call are not modelled.
\<close>

definition initialize_csv :: "CSVStorage \<Rightarrow> string option \<Rightarrow> string \<Rightarrow> string \<times> CSVStorage" where
  "initialize_csv s fname timestamp =
     (let fn = (case fname of
                  None \<Rightarrow> ''edsp_schools_'' @ timestamp @ ''.csv''
                | Some n \<Rightarrow> if n = [] then ''edsp_schools_'' @ timestamp @ ''.csv'' else n);
          path = output_dir s @ ''/'' @ fn
      in (path,
          s\<lparr>filename := Some path,
            csv_file := Some \<lparr>f_path = path, f_buffer = csv_record fieldnames, f_closed = False\<rparr>,
            csv_writer := Some fieldnames,
            disk := (disk s)(path \<mapsto> [])\<rparr>))"

text \<open>
  \<open>write_school_data\<close>. The writer is only ever set together with the file
  (\<open>initialize_csv\<close>); a writer without a file cannot arise, and the model raises there.
\<close>

definition write_school_data :: "CSVStorage \<Rightarrow> SchoolData \<Rightarrow> py_error option \<times> CSVStorage" where
  "write_school_data s school_data =
     (case csv_writer s of
        None \<Rightarrow> (Some (RuntimeError ''CSV file not initialized. Call initialize_csv() first.''), s)
      | Some names \<Rightarrow>
          (case dict_to_list names (to_dict school_data) of
             Inl e \<Rightarrow> (Some e, s)
           | Inr row \<Rightarrow>
               (case csv_file s of
                  None \<Rightarrow> (Some closed_file_error, s)
                | Some f \<Rightarrow>
                    (case file_write f (csv_record row) of
                       Inl e \<Rightarrow> (Some e, s)
                     | Inr f' \<Rightarrow> (None, s\<lparr>csv_file := Some f'\<rparr>)))))"

definition write_single_school :: "CSVStorage \<Rightarrow> SchoolData \<Rightarrow> py_error option \<times> CSVStorage" where
  "write_single_school s school =
     (case write_school_data s school of
        (Some e, s') \<Rightarrow> (Some e, s')
      | (None, s') \<Rightarrow>
          (case csv_file s' of
             None \<Rightarrow> (None, s')
           | Some f \<Rightarrow>
               (case file_flush f (disk s') of
                  Inl e \<Rightarrow> (Some e, s')
                | Inr (f', d') \<Rightarrow> (None, s'\<lparr>csv_file := Some f', disk := d'\<rparr>))))"

fun write_multiple_schools :: "CSVStorage \<Rightarrow> SchoolData list \<Rightarrow> py_error option \<times> CSVStorage" where
  "write_multiple_schools s [] = (None, s)"
| "write_multiple_schools s (school # schools) =
     (case write_school_data s school of
        (Some e, s') \<Rightarrow> (Some e, s')
      | (None, s') \<Rightarrow> write_multiple_schools s' schools)"

text \<open>
  \<open>close\<close>: when \<open>_csv_file\<close> is set, flush, \<open>os.fsync\<close> of the descriptor, close. A file
  object is true whether open or closed, and \<open>close\<close> does not reset the attribute.
\<close>

definition close :: "CSVStorage \<Rightarrow> py_error option \<times> CSVStorage" where
  "close s =
     (case csv_file s of
        None \<Rightarrow> (None, s)
      | Some f \<Rightarrow>
          (case file_flush f (disk s) of
             Inl e \<Rightarrow> (Some e, s)
           | Inr (f1, d1) \<Rightarrow>
               (let s1 = s\<lparr>csv_file := Some f1, disk := d1\<rparr>
                in case file_fileno f1 of
                     Inl e \<Rightarrow> (Some e, s1)
                   | Inr fd \<Rightarrow>
                       (let s2 = s1\<lparr>fsyncs := fsyncs s1 @ [fd]\<rparr>;
                            (f3, d3) = file_close f1 (disk s2)
                        in (None, s2\<lparr>csv_file := Some f3, disk := d3\<rparr>)))))"

definition force_save :: "CSVStorage \<Rightarrow> py_error option \<times> CSVStorage" where
  "force_save s =
     (case csv_file s of
        None \<Rightarrow> (None, s)
      | Some f \<Rightarrow>
          (case file_flush f (disk s) of
             Inl e \<Rightarrow> (Some e, s)
           | Inr (f1, d1) \<Rightarrow>
               (let s1 = s\<lparr>csv_file := Some f1, disk := d1\<rparr>
                in case file_fileno f1 of
                     Inl e \<Rightarrow> (Some e, s1)
                   | Inr fd \<Rightarrow> (None, s1\<lparr>fsyncs := fsyncs s1 @ [fd]\<rparr>))))"

subsection \<open>Reading a text file\<close>

text \<open>
  A file opened for reading in text mode translates the line ends CR LF and CR to LF;
  iterating over it gives the lines, each with its LF (the last line may lack one).
  The file holds text: a file that cannot be opened or decoded is not modelled.
\<close>

fun universal_newlines :: "string \<Rightarrow> string" where
  "universal_newlines [] = []"
| "universal_newlines [c] = (if c = CR then [LF] else [c])"
| "universal_newlines (c # d # cs) =
     (if c = CR then (if d = LF then LF # universal_newlines cs
                      else LF # universal_newlines (d # cs))
      else c # universal_newlines (d # cs))"

fun lines_from :: "string \<Rightarrow> string \<Rightarrow> string list" where
  "lines_from cur [] = (if cur = [] then [] else [cur])"
| "lines_from cur (c # cs) =
     (if c = LF then (cur @ [c]) # lines_from [] cs else lines_from (cur @ [c]) cs)"

definition split_lines :: "string \<Rightarrow> string list" where
  "split_lines s = lines_from [] s"

subsection \<open>The csv reader\<close>

text \<open>
  \<open>csv.reader\<close> with the default dialect (comma, double quote, doubled quotes, not
  strict, no escape character): the parser of the \<open>_csv\<close> module, one character at a
  time, with the end of a line as the input \<open>None\<close>. The three states that only an escape
  character reaches are left out. A field may hold at most \<open>field_limit\<close> characters;
  one more raises \<open>csv.Error\<close>.
\<close>

datatype parse_state =
    START_RECORD | START_FIELD | IN_FIELD | IN_QUOTED_FIELD | QUOTE_IN_QUOTED_FIELD | EAT_CRNL

record reader =
  r_state :: parse_state
  r_fields :: "string list"
  r_field :: string

definition field_limit :: nat where
  "field_limit = 131072"

definition parse_reset :: reader where
  "parse_reset = \<lparr>r_state = START_RECORD, r_fields = [], r_field = []\<rparr>"

definition parse_add_char :: "reader \<Rightarrow> char \<Rightarrow> py_error + reader" where
  "parse_add_char r c =
     (if field_limit \<le> length (r_field r)
      then Inl (CsvError ''field larger than field limit (131072)'')
      else Inr (r\<lparr>r_field := r_field r @ [c]\<rparr>))"

definition parse_save_field :: "reader \<Rightarrow> reader" where
  "parse_save_field r = r\<lparr>r_fields := r_fields r @ [r_field r], r_field := []\<rparr>"

definition is_newline :: "char option \<Rightarrow> bool" where
  "is_newline c \<longleftrightarrow> c = Some LF \<or> c = Some CR"

definition after_line_end :: "char option \<Rightarrow> parse_state" where
  "after_line_end c = (if c = None then START_RECORD else EAT_CRNL)"

definition start_field :: "reader \<Rightarrow> char option \<Rightarrow> py_error + reader" where
  "start_field r c =
     (case c of
        None \<Rightarrow> Inr ((parse_save_field r)\<lparr>r_state := START_RECORD\<rparr>)
      | Some ch \<Rightarrow>
          if is_newline c then Inr ((parse_save_field r)\<lparr>r_state := EAT_CRNL\<rparr>)
          else if ch = CHR 0x22 then Inr (r\<lparr>r_state := IN_QUOTED_FIELD\<rparr>)
          else if ch = CHR '','' then Inr ((parse_save_field r)\<lparr>r_state := START_FIELD\<rparr>)
          else (case parse_add_char r ch of
                  Inl e \<Rightarrow> Inl e
                | Inr r' \<Rightarrow> Inr (r'\<lparr>r_state := IN_FIELD\<rparr>)))"

definition parse_process_char :: "reader \<Rightarrow> char option \<Rightarrow> py_error + reader" where
  "parse_process_char r c =
     (case r_state r of
        START_RECORD \<Rightarrow>
          (if c = None then Inr r
           else if is_newline c then Inr (r\<lparr>r_state := EAT_CRNL\<rparr>)
           else start_field r c)
      | START_FIELD \<Rightarrow> start_field r c
      | IN_FIELD \<Rightarrow>
          (case c of
             None \<Rightarrow> Inr ((parse_save_field r)\<lparr>r_state := START_RECORD\<rparr>)
           | Some ch \<Rightarrow>
               if is_newline c then Inr ((parse_save_field r)\<lparr>r_state := EAT_CRNL\<rparr>)
               else if ch = CHR '','' then Inr ((parse_save_field r)\<lparr>r_state := START_FIELD\<rparr>)
               else parse_add_char r ch)
      | IN_QUOTED_FIELD \<Rightarrow>
          (case c of
             None \<Rightarrow> Inr r
           | Some ch \<Rightarrow>
               if ch = CHR 0x22 then Inr (r\<lparr>r_state := QUOTE_IN_QUOTED_FIELD\<rparr>)
               else parse_add_char r ch)
      | QUOTE_IN_QUOTED_FIELD \<Rightarrow>
          (case c of
             None \<Rightarrow> Inr ((parse_save_field r)\<lparr>r_state := START_RECORD\<rparr>)
           | Some ch \<Rightarrow>
               if ch = CHR 0x22
               then (case parse_add_char r ch of
                       Inl e \<Rightarrow> Inl e
                     | Inr r' \<Rightarrow> Inr (r'\<lparr>r_state := IN_QUOTED_FIELD\<rparr>))
               else if ch = CHR '','' then Inr ((parse_save_field r)\<lparr>r_state := START_FIELD\<rparr>)
               else if is_newline c then Inr ((parse_save_field r)\<lparr>r_state := EAT_CRNL\<rparr>)
               else (case parse_add_char r ch of
                       Inl e \<Rightarrow> Inl e
                     | Inr r' \<Rightarrow> Inr (r'\<lparr>r_state := IN_FIELD\<rparr>)))
      | EAT_CRNL \<Rightarrow>
          (if is_newline c then Inr r
           else if c = None then Inr (r\<lparr>r_state := START_RECORD\<rparr>)
           else Inl (CsvError ''new-line character seen in unquoted field'')))"

fun feed_line :: "reader \<Rightarrow> string \<Rightarrow> py_error + reader" where
  "feed_line r [] = Inr r"
| "feed_line r (c # cs) =
     (case parse_process_char r (Some c) of
        Inl e \<Rightarrow> Inl e
      | Inr r' \<Rightarrow> feed_line r' cs)"

text \<open>
  One call of the reader's \<open>__next__\<close>, from the parser state \<open>r\<close> and the lines not yet
  read: lines are fed until a record is complete. At the end of the input a pending
  field or an open quote still gives a record; otherwise the iteration stops (\<open>None\<close>).
  The result holds the lines left.
\<close>

fun read_record :: "reader \<Rightarrow> string list \<Rightarrow> py_error + (string list option \<times> string list)" where
  "read_record r [] =
     (if r_field r \<noteq> [] \<or> r_state r = IN_QUOTED_FIELD
      then Inr (Some (r_fields (parse_save_field r)), [])
      else Inr (None, []))"
| "read_record r (l # ls) =
     (case feed_line r l of
        Inl e \<Rightarrow> Inl e
      | Inr r1 \<Rightarrow>
          (case parse_process_char r1 None of
             Inl e \<Rightarrow> Inl e
           | Inr r2 \<Rightarrow>
               if r_state r2 = START_RECORD then Inr (Some (r_fields r2), ls)
               else read_record r2 ls))"

definition reader_next :: "string list \<Rightarrow> py_error + (string list option \<times> string list)" where
  "reader_next ls = read_record parse_reset ls"

text \<open>
  All remaining records, as \<open>sum(1 for row in reader)\<close> reads them. Each record takes
  at least one line (lemma \<open>reader_next_shorter\<close>), so the test on the lengths never
  fails; it is what makes the recursion well-founded.
\<close>

function read_all :: "string list \<Rightarrow> py_error + string list list" where
  "read_all ls =
     (case reader_next ls of
        Inl e \<Rightarrow> Inl e
      | Inr (None, rest) \<Rightarrow> Inr []
      | Inr (Some row, rest) \<Rightarrow>
          if length rest < length ls
          then (case read_all rest of Inl e \<Rightarrow> Inl e | Inr rows \<Rightarrow> Inr (row # rows))
          else Inr [row])"
  by pat_completeness auto
termination
  by (relation "measure length") auto

declare read_all.simps [simp del]


text \<open>\<open>get_partial_data_count\<close>: the rows after the header; 0 when reading raises.\<close>

definition get_partial_data_count :: "CSVStorage \<Rightarrow> nat" where
  "get_partial_data_count s =
     (case filename s of
        None \<Rightarrow> 0
      | Some p \<Rightarrow>
          (case disk s p of
             None \<Rightarrow> 0
           | Some raw \<Rightarrow>
               (case reader_next (split_lines (universal_newlines raw)) of
                  Inl e \<Rightarrow> 0
                | Inr (header, rest) \<Rightarrow>
                    (case read_all rest of Inl e \<Rightarrow> 0 | Inr rows \<Rightarrow> length rows))))"

text \<open>The text of the file behind the storage as a reader sees it.\<close>

definition file_content :: "CSVStorage \<Rightarrow> string option" where
  "file_content s =
     (case filename s of
        None \<Rightarrow> None
      | Some p \<Rightarrow> map_option universal_newlines (disk s p))"





section \<open>Browser (src/infrastructure/browser.py)\<close>

subsection \<open>BrowserManager.navigate_to_page_robust\<close>

text \<open>
  The rendered page is outside the program. What it does at each attempt of the loop is
  given by an environment: for each of the five selectors whether the query raises,
  finds nothing or finds the button; whether the click raises; whether the wait after
  the click raises; and whether the table is found by \<open>wait_for_selector\<close> in time.
\<close>

datatype query_result = QRaises | QNone | QFound

record attempt_env =
  selector_results :: "nat \<Rightarrow> query_result"
  click_raises :: bool
  settle_raises :: bool
  content_loaded :: bool

record nav_env =
  first_wait_raises :: bool
  at_attempt :: "nat \<Rightarrow> attempt_env"

text \<open>
  The inner loop over the selectors: a query that raises is skipped, the first button
  found ends the search.
\<close>

fun find_next_button :: "query_result list \<Rightarrow> bool" where
  "find_next_button [] = False"
| "find_next_button (QFound # qs) = True"
| "find_next_button (QRaises # qs) = find_next_button qs"
| "find_next_button (QNone # qs) = find_next_button qs"

definition next_button :: "attempt_env \<Rightarrow> bool" where
  "next_button a = find_next_button (map (selector_results a) [0..<5])"

text \<open>
  The loop \<open>for attempt in range(max_attempts)\<close>: \<open>remaining\<close> counts the iterations
  left, \<open>attempt\<close> is the loop variable. The result is what the function returns
  after the loop, the value of \<open>current_page\<close> and the number of clicks made.
\<close>

fun nav_loop :: "(nat \<Rightarrow> attempt_env) \<Rightarrow> int \<Rightarrow> nat \<Rightarrow> nat \<Rightarrow> int \<Rightarrow> nat \<Rightarrow> bool \<times> int \<times> nat" where
  "nav_loop env target 0 attempt current clicks = (False, current, clicks)"
| "nav_loop env target (Suc remaining) attempt current clicks =
     (if target \<le> current then (True, current, clicks)
      else if next_button (env attempt) then
        (if click_raises (env attempt) then (False, current, Suc clicks)
         else if settle_raises (env attempt) then (False, current, Suc clicks)
         else if content_loaded (env attempt)
           then nav_loop env target remaining (Suc attempt) (current + 1) (Suc clicks)
           else nav_loop env target remaining (Suc attempt) current (Suc clicks))
      else (False, current, clicks))"

record nav_result =
  reached :: bool
  current_page :: int
  clicks :: nat
  page_size_set :: bool

text \<open>
  \<open>set_results_per_page\<close> catches every exception itself and its result is not used;
  \<open>page_size_set\<close> records that it was called.
\<close>

definition navigate_to_page_robust :: "nav_env \<Rightarrow> int \<Rightarrow> nav_result" where
  "navigate_to_page_robust env target_page =
     (if target_page = 1
      then \<lparr>reached = True, current_page = 1, clicks = 0, page_size_set = True\<rparr>
      else if first_wait_raises env
      then \<lparr>reached = False, current_page = 1, clicks = 0, page_size_set = False\<rparr>
      else if 1 < target_page
      then (case nav_loop (at_attempt env) target_page (nat (target_page + 5)) 0 1 0 of
              (r, p, c) \<Rightarrow> \<lparr>reached = r, current_page = p, clicks = c, page_size_set = False\<rparr>)
      else \<lparr>reached = True, current_page = 1, clicks = 0, page_size_set = False\<rparr>)"

text \<open>The attempts among the first \<open>k\<close> at which the page counter is incremented.\<close>

definition verified_steps :: "(nat \<Rightarrow> attempt_env) \<Rightarrow> nat \<Rightarrow> nat" where
  "verified_steps env k = length (filter (\<lambda>i. content_loaded (env i)) [0..<k])"

text \<open>An attempt that neither ends the loop by \<open>break\<close> nor by an exception.\<close>

definition attempt_continues :: "attempt_env \<Rightarrow> bool" where
  "attempt_continues a \<longleftrightarrow> next_button a \<and> \<not> click_raises a \<and> \<not> settle_raises a"

subsection \<open>Detail fetches and BrowserManager.process_page_parallel\<close>

text \<open>
  The outcome of awaiting an external call: a value, or an exception with its text.
\<close>

datatype 'a outcome = Returns 'a | Raises string

text \<open>
  \<open>extract_school_details\<close> under its retry decorator (\<open>stop_after_attempt(3)\<close>, retry on
  every exception): the environment gives the outcome of each call; the first value is
  returned, and after three failures the decorator raises.
\<close>

fun with_retry :: "nat \<Rightarrow> (nat \<Rightarrow> 'a outcome) \<Rightarrow> nat \<Rightarrow> 'a outcome" where
  "with_retry 0 call n = Raises ''RetryError''"
| "with_retry (Suc left) call n =
     (case call n of
        Returns v \<Rightarrow> Returns v
      | Raises e \<Rightarrow> with_retry left call (Suc n))"

text \<open>The dictionary \<open>extract_school_details\<close> returns: keys with their texts.\<close>

type_synonym raw_data = "(string \<times> string) list"

record page_env =
  goto_raises :: bool
  navigation :: nav_env
  school_links :: "string list"
  fetch :: "string \<Rightarrow> nat \<Rightarrow> raw_data outcome"

definition process_school_parallel :: "page_env \<Rightarrow> string \<Rightarrow> raw_data outcome" where
  "process_school_parallel env url = with_retry 3 (fetch env url) 0"

text \<open>
  The loop over the results of \<open>asyncio.gather(..., return_exceptions=True)\<close>: a
  dictionary is appended to \<open>page_results\<close>, an exception is logged.
\<close>

fun collect_results :: "raw_data outcome list \<Rightarrow> raw_data list" where
  "collect_results [] = []"
| "collect_results (Returns d # rs) = d # collect_results rs"
| "collect_results (Raises e # rs) = collect_results rs"

text \<open>
  \<open>process_page_parallel\<close>. \<open>extract_school_links\<close> catches every exception itself and
  returns the links it found (\<open>school_links\<close>); \<open>gather\<close> gives the results in the order
  of the tasks.
\<close>

definition process_page_parallel :: "page_env \<Rightarrow> int \<Rightarrow> raw_data list" where
  "process_page_parallel env page_num =
     (if goto_raises env then []
      else if 1 < page_num \<and> \<not> reached (navigate_to_page_robust (navigation env) page_num) then []
      else collect_results (map (process_school_parallel env) (school_links env)))"

section \<open>Scraper (src/application/scraper.py)\<close>

text \<open>\<open>raw_data[key]\<close> raises \<open>KeyError\<close>, whose text is the key in quotes.\<close>

definition dict_get :: "raw_data \<Rightarrow> string \<Rightarrow> py_error + string" where
  "dict_get d k = (case map_of d k of None \<Rightarrow> Inl (KeyError k) | Some v \<Rightarrow> Inr v)"

definition dict_get_default :: "raw_data \<Rightarrow> string \<Rightarrow> string \<Rightarrow> string" where
  "dict_get_default d k dflt = (case map_of d k of None \<Rightarrow> dflt | Some v \<Rightarrow> v)"

fun error_text :: "py_error \<Rightarrow> string" where
  "error_text (KeyError k) = CHR 0x27 # k @ [CHR 0x27]"
| "error_text (RuntimeError m) = m"
| "error_text (ValueError m) = m"
| "error_text (AttributeError m) = m"
| "error_text (ZeroDivisionError m) = m"
| "error_text (CsvError m) = m"
| "error_text (OSError m) = m"
| "error_text (OverflowError m) = m"

text \<open>
  \<open>SchoolDataProcessor.create_school_data\<close> with the arguments \<open>process_school_data\<close>
  gives it on success; \<open>now\<close> is the text of the current time.
\<close>

definition school_of_raw ::
  "string \<Rightarrow> string \<Rightarrow> SchoolClassification \<Rightarrow> string \<Rightarrow> raw_data \<Rightarrow> SchoolData" where
  "school_of_raw now nm cls url d =
     \<lparr>name = nm, classification = cls, detail_url = url, extraction_timestamp = now,
      status = SUCCESS,
      teaching_directorate = dict_get_default d ''teaching_directorate'' [],
      neighborhood = dict_get_default d ''neighborhood'' [],
      municipality = dict_get_default d ''municipality'' [],
      phone = dict_get_default d ''phone'' [],
      email = dict_get_default d ''email'' [],
      ideb_score_final_years = dict_get_default d ''ideb_score_final_years'' [],
      idesp_score_final_years = dict_get_default d ''idesp_score_final_years'' [],
      ideb_score_high_school = dict_get_default d ''ideb_score_high_school'' [],
      idesp_score_high_school = dict_get_default d ''idesp_score_high_school'' [],
      total_students = dict_get_default d ''total_students'' [],
      age_06_10_final_years = dict_get_default d ''age_06_10_final_years'' [],
      age_11_14_final_years = dict_get_default d ''age_11_14_final_years'' [],
      age_15_17_final_years = dict_get_default d ''age_15_17_final_years'' [],
      age_18_plus_final_years = dict_get_default d ''age_18_plus_final_years'' [],
      age_06_10_high_school = dict_get_default d ''age_06_10_high_school'' [],
      age_11_14_high_school = dict_get_default d ''age_11_14_high_school'' [],
      age_15_17_high_school = dict_get_default d ''age_15_17_high_school'' [],
      age_18_plus_high_school = dict_get_default d ''age_18_plus_high_school'' [],
      total_classes = dict_get_default d ''total_classes'' [],
      classes_final_years = dict_get_default d ''classes_final_years'' [],
      classes_high_school = dict_get_default d ''classes_high_school'' [],
      total_classrooms = dict_get_default d ''total_classrooms'' [],
      error_message = None\<rparr>"

definition error_school :: "string \<Rightarrow> string \<Rightarrow> string \<Rightarrow> SchoolData" where
  "error_school now url msg =
     \<lparr>name = [], classification = SchoolClassification ''UNKNOWN'', detail_url = url,
      extraction_timestamp = now, status = ERROR,
      teaching_directorate = [], neighborhood = [], municipality = [], phone = [],
      email = [], ideb_score_final_years = [], idesp_score_final_years = [],
      ideb_score_high_school = [], idesp_score_high_school = [], total_students = [],
      age_06_10_final_years = [], age_11_14_final_years = [], age_15_17_final_years = [],
      age_18_plus_final_years = [], age_06_10_high_school = [], age_11_14_high_school = [],
      age_15_17_high_school = [], age_18_plus_high_school = [], total_classes = [],
      classes_final_years = [], classes_high_school = [], total_classrooms = [],
      error_message = Some msg\<rparr>"

text \<open>
  \<open>EDSPScraper.process_school_data\<close>: the \<open>try\<close> block reads \<open>classification\<close>, \<open>name\<close>
  and \<open>detail_url\<close> in this order; any exception gives the \<open>ERROR\<close> record of the
  \<open>except\<close> branch. The stats are those of the school processor.
\<close>

definition process_school_data ::
  "string \<Rightarrow> ProcessingStats \<Rightarrow> raw_data \<Rightarrow> SchoolData \<times> ProcessingStats" where
  "process_school_data now stats d =
     (case dict_get d ''classification'' of
        Inl e \<Rightarrow> (error_school now (dict_get_default d ''detail_url'' []) (error_text e),
                  update_error stats)
      | Inr c \<Rightarrow>
          (case dict_get d ''name'' of
             Inl e \<Rightarrow> (error_school now (dict_get_default d ''detail_url'' []) (error_text e),
                       update_error stats)
           | Inr nm \<Rightarrow>
               (case dict_get d ''detail_url'' of
                  Inl e \<Rightarrow> (error_school now (dict_get_default d ''detail_url'' []) (error_text e),
                            update_error stats)
                | Inr url \<Rightarrow>
                    (school_of_raw now nm (from_text (Some c)) url d, update_success stats))))"

text \<open>
  The state the scraper's loops work on: the school processor's stats, the list
  \<open>all_schools\<close> and the storage.
\<close>

record scraper_state =
  stats :: ProcessingStats
  all_schools :: "SchoolData list"
  storage :: CSVStorage

text \<open>
  The loop \<open>for raw_data in page_results\<close> of \<open>process_batch\<close> and \<open>process_sample\<close>:
  each dictionary becomes a record, is appended to \<open>all_schools\<close> and written at once;
  an exception of the storage leaves the loop.
\<close>

fun save_page_results ::
  "string \<Rightarrow> scraper_state \<Rightarrow> raw_data list \<Rightarrow> py_error option \<times> scraper_state" where
  "save_page_results now st [] = (None, st)"
| "save_page_results now st (d # ds) =
     (case process_school_data now (stats st) d of
        (school, stats') \<Rightarrow>
          (case write_single_school (storage st) school of
             (Some e, sto') \<Rightarrow>
               (Some e, st\<lparr>stats := stats', all_schools := all_schools st @ [school],
                           storage := sto'\<rparr>)
           | (None, sto') \<Rightarrow>
               save_page_results now
                 (st\<lparr>stats := stats', all_schools := all_schools st @ [school],
                     storage := sto'\<rparr>) ds))"

text \<open>One page from its references to the persisted records.\<close>

definition process_page ::
  "string \<Rightarrow> page_env \<Rightarrow> int \<Rightarrow> scraper_state \<Rightarrow> py_error option \<times> scraper_state" where
  "process_page now env page_num st =
     save_page_results now st (process_page_parallel env page_num)"

section \<open>Concrete runs\<close>

text \<open>
  A navigation where the button is always found and every click goes through, but the
  table only loads in time after the attempt with index \<open>late\<close>.
\<close>

definition late_load_env :: "nat \<Rightarrow> nav_env" where
  "late_load_env late =
     \<lparr>first_wait_raises = False,
      at_attempt = (\<lambda>i. \<lparr>selector_results = (\<lambda>j. QFound), click_raises = False,
                          settle_raises = False, content_loaded = (i = late)\<rparr>)\<rparr>"

text \<open>
  The dictionary \<open>extract_school_details\<close> returns for a detail page that shows only a
  name and a classification: all twenty-five keys, the other texts empty.
\<close>

definition details_dict :: "string \<Rightarrow> string \<Rightarrow> string \<Rightarrow> raw_data" where
  "details_dict nm cls url =
     [(''name'', nm), (''classification'', cls), (''detail_url'', url),
      (''teaching_directorate'', []), (''neighborhood'', []), (''municipality'', []),
      (''phone'', []), (''email'', []), (''ideb_score_final_years'', []),
      (''idesp_score_final_years'', []), (''ideb_score_high_school'', []),
      (''idesp_score_high_school'', []), (''total_students'', []), (''total_classes'', []),
      (''classes_final_years'', []), (''classes_high_school'', []), (''total_classrooms'', []),
      (''age_06_10_final_years'', []), (''age_11_14_final_years'', []),
      (''age_15_17_final_years'', []), (''age_18_plus_final_years'', []),
      (''age_06_10_high_school'', []), (''age_11_14_high_school'', []),
      (''age_15_17_high_school'', []), (''age_18_plus_high_school'', [])]"

text \<open>
  Page 1 with three detail references: the fetches of the first and the third succeed
  at once, every fetch of the second raises.
\<close>

definition three_links_env :: page_env where
  "three_links_env =
     \<lparr>goto_raises = False,
      navigation = late_load_env 0,
      school_links = [''/Home/DetalhesEscola?codesc=1'', ''/Home/DetalhesEscola?codesc=2'',
                      ''/Home/DetalhesEscola?codesc=3''],
      fetch = (\<lambda>url n. if url = ''/Home/DetalhesEscola?codesc=2'' then Raises ''Timeout''
                        else Returns (details_dict ''EE Escola'' ''PEI'' url))\<rparr>"

definition fresh_scraper :: scraper_state where
  "fresh_scraper =
     \<lparr>stats = ProcessingStats_init, all_schools = [],
      storage = snd (initialize_csv (CSVStorage_init ''results'' Map.empty)
                       (Some ''out.csv'') ''20250101_000000'')\<rparr>"

text \<open>
  What a run of one page leaves behind: the exception that ended it (if any), the status
  and reference of each record in \<open>all_schools\<close>, the counters \<open>total_processed\<close>,
  \<open>successful\<close> and \<open>errors\<close>, and the text of the output file on disk.
\<close>

definition run_summary ::
  "py_error option \<times> scraper_state \<Rightarrow>
   py_error option \<times> (ProcessingStatus \<times> string) list \<times> int \<times> int \<times> int \<times> string option" where
  "run_summary r =
     (case r of
        (e, st) \<Rightarrow>
          (e, map (\<lambda>s. (status s, detail_url s)) (all_schools st),
           total_processed (stats st), successful (stats st), errors (stats st),
           (case filename (storage st) of None \<Rightarrow> None | Some p \<Rightarrow> disk (storage st) p)))"





section \<open>Properties of the statistics\<close>

lemma apply_update_balanced: "stats_balanced s \<Longrightarrow> stats_balanced (apply_update s u)"
  by (cases u) (simp_all add: stats_balanced_def update_success_def update_error_def update_skipped_def)

lemma foldl_update_balanced: "stats_balanced s \<Longrightarrow> stats_balanced (foldl apply_update s us)"
  by (induction us arbitrary: s) (simp_all add: apply_update_balanced)

lemma apply_update_le: "stats_le s (apply_update s u)"
  by (cases u) (simp_all add: stats_le_def update_success_def update_error_def update_skipped_def)

lemma stats_le_trans: "stats_le a b \<Longrightarrow> stats_le b c \<Longrightarrow> stats_le a c"
  by (auto simp: stats_le_def)

lemma foldl_update_le: "stats_le s (foldl apply_update s us)"
proof (induction us arbitrary: s)
  case Nil
  show ?case by (simp add: stats_le_def)
next
  case (Cons u us)
  have "stats_le s (apply_update s u)" by (rule apply_update_le)
  moreover have "stats_le (apply_update s u) (foldl apply_update (apply_update s u) us)"
    by (rule Cons.IH)
  ultimately show ?case using stats_le_trans by simp
qed

text \<open>
  C6. Starting from the zeroed stats, after any sequence of updates
  \<open>total_processed = successful + errors + skipped\<close>; since every prefix of a run is
  itself a sequence of updates, the equation holds after every single update. Each
  update adds one to \<open>total_processed\<close> and one to exactly the counter of its outcome,
  leaving the other fields as they were; no update ever lowers a counter, neither in one
  step nor over a continued run.
\<close>

theorem stats_total_is_sum_of_outcomes:
  "stats_balanced (apply_updates ProcessingStats_init us)
   \<and> total_processed (apply_update s u) = total_processed s + 1
   \<and> successful (apply_update s u) = successful s + (if u = UpdSuccess then 1 else 0)
   \<and> errors (apply_update s u) = errors s + (if u = UpdError then 1 else 0)
   \<and> skipped (apply_update s u) = skipped s + (if u = UpdSkipped then 1 else 0)
   \<and> pages_processed (apply_update s u) = pages_processed s
   \<and> total_pages (apply_update s u) = total_pages s
   \<and> total_institutions (apply_update s u) = total_institutions s
   \<and> stats_le s (apply_update s u)
   \<and> stats_le (apply_updates s us) (apply_updates s (us @ vs))"
proof -
  have init: "stats_balanced ProcessingStats_init"
    by (simp add: stats_balanced_def ProcessingStats_init_def)
  have a: "stats_balanced (apply_updates ProcessingStats_init us)"
    unfolding apply_updates_def by (rule foldl_update_balanced [OF init])
  have b: "total_processed (apply_update s u) = total_processed s + 1
     \<and> successful (apply_update s u) = successful s + (if u = UpdSuccess then 1 else 0)
     \<and> errors (apply_update s u) = errors s + (if u = UpdError then 1 else 0)
     \<and> skipped (apply_update s u) = skipped s + (if u = UpdSkipped then 1 else 0)
     \<and> pages_processed (apply_update s u) = pages_processed s
     \<and> total_pages (apply_update s u) = total_pages s
     \<and> total_institutions (apply_update s u) = total_institutions s"
    by (cases u) (simp_all add: update_success_def update_error_def update_skipped_def)
  have c: "stats_le s (apply_update s u)" by (rule apply_update_le)
  have d: "stats_le (apply_updates s us) (apply_updates s (us @ vs))"
    unfolding apply_updates_def by (simp add: foldl_update_le)
  from a b c d show ?thesis by blast
qed

lemma merge_stats_assoc: "merge_stats (merge_stats a b) c = merge_stats a (merge_stats b c)"
  by (simp add: merge_stats_def)

lemma merge_stats_right_commute:
  "merge_stats (merge_stats s a) b = merge_stats (merge_stats s b) a"
  by (simp add: merge_stats_def)

lemma foldl_merge_stats_pull:
  "foldl merge_stats (merge_stats s a) bs = merge_stats (foldl merge_stats s bs) a"
proof (induction bs arbitrary: s)
  case Nil
  show ?case by simp
next
  case (Cons b bs)
  have "foldl merge_stats (merge_stats s a) (b # bs)
        = foldl merge_stats (merge_stats (merge_stats s b) a) bs"
    by (simp add: merge_stats_right_commute [of s a b])
  also have "\<dots> = merge_stats (foldl merge_stats (merge_stats s b) bs) a"
    by (rule Cons.IH)
  finally show ?case by simp
qed

lemma foldl_merge_stats_mset:
  "mset bs = mset cs \<Longrightarrow> foldl merge_stats s bs = foldl merge_stats s cs"
proof (induction bs arbitrary: cs s)
  case Nil
  then show ?case by simp
next
  case (Cons b bs)
  from Cons.prems have "b \<in> set cs"
    by (metis list.set_intros(1) set_mset_mset)
  then obtain us vs where cs: "cs = us @ b # vs"
    by (meson split_list)
  with Cons.prems have "mset bs = mset (us @ vs)" by simp
  then have ih: "foldl merge_stats (merge_stats s b) bs = foldl merge_stats (merge_stats s b) (us @ vs)"
    by (rule Cons.IH)
  have "foldl merge_stats s cs = foldl merge_stats (merge_stats (foldl merge_stats s us) b) vs"
    by (simp add: cs)
  also have "\<dots> = foldl merge_stats (foldl merge_stats (merge_stats s b) us) vs"
    by (simp add: foldl_merge_stats_pull)
  also have "\<dots> = foldl merge_stats (merge_stats s b) (us @ vs)" by simp
  finally show ?case using ih by simp
qed

text \<open>
  C7, the claim as stated. The claim says that merging is commutative as an operation
  on stats values. \<open>merge_stats\<close> adds five of the seven fields and keeps \<open>total_pages\<close>
  and \<open>total_institutions\<close> of the stats merged into: for totals that know of 7 pages
  and a fresh batch value, merging the batch into the totals keeps 7 pages, merging the
  totals into the batch keeps 0.
\<close>

theorem merge_stats_not_commutative:
  "merge_stats (ProcessingStats_init\<lparr>total_pages := 7\<rparr>) ProcessingStats_init
     \<noteq> merge_stats ProcessingStats_init (ProcessingStats_init\<lparr>total_pages := 7\<rparr>)
   \<and> total_pages (merge_stats (ProcessingStats_init\<lparr>total_pages := 7\<rparr>) ProcessingStats_init) = 7
   \<and> total_pages (merge_stats ProcessingStats_init (ProcessingStats_init\<lparr>total_pages := 7\<rparr>)) = 0"
proof -
  have a: "total_pages (merge_stats (ProcessingStats_init\<lparr>total_pages := 7\<rparr>) ProcessingStats_init) = 7"
    by (simp add: merge_stats_def ProcessingStats_init_def)
  have b: "total_pages (merge_stats ProcessingStats_init (ProcessingStats_init\<lparr>total_pages := 7\<rparr>)) = 0"
    by (simp add: merge_stats_def ProcessingStats_init_def)
  from a b have "merge_stats (ProcessingStats_init\<lparr>total_pages := 7\<rparr>) ProcessingStats_init
     \<noteq> merge_stats ProcessingStats_init (ProcessingStats_init\<lparr>total_pages := 7\<rparr>)"
    by auto
  with a b show ?thesis by blast
qed

text \<open>
  C7, amended. \<open>merge_stats\<close> adds the five counters of the batch to those of the run
  totals and does nothing else: the totals' \<open>total_pages\<close> and \<open>total_institutions\<close> stay
  as they were. Merging is associative. It is commutative on the five counters it merges
  (not on the two fields it keeps). Merging two batches into the same totals gives the
  same stats in either order, and merging a collection of batch stats into the run
  totals gives the same totals for every order of the collection.
\<close>

theorem merge_stats_fieldwise_assoc_commutative:
  "total_processed (merge_stats t b) = total_processed t + total_processed b
   \<and> successful (merge_stats t b) = successful t + successful b
   \<and> errors (merge_stats t b) = errors t + errors b
   \<and> skipped (merge_stats t b) = skipped t + skipped b
   \<and> pages_processed (merge_stats t b) = pages_processed t + pages_processed b
   \<and> total_pages (merge_stats t b) = total_pages t
   \<and> total_institutions (merge_stats t b) = total_institutions t
   \<and> merge_stats (merge_stats t b) c = merge_stats t (merge_stats b c)
   \<and> counters (merge_stats t b) = counters (merge_stats b t)
   \<and> merge_stats (merge_stats t b) c = merge_stats (merge_stats t c) b
   \<and> (mset bs = mset cs \<longrightarrow> merge_all t bs = merge_all t cs)"
proof -
  have f: "total_processed (merge_stats t b) = total_processed t + total_processed b
   \<and> successful (merge_stats t b) = successful t + successful b
   \<and> errors (merge_stats t b) = errors t + errors b
   \<and> skipped (merge_stats t b) = skipped t + skipped b
   \<and> pages_processed (merge_stats t b) = pages_processed t + pages_processed b
   \<and> total_pages (merge_stats t b) = total_pages t
   \<and> total_institutions (merge_stats t b) = total_institutions t"
    by (simp add: merge_stats_def)
  have c: "counters (merge_stats t b) = counters (merge_stats b t)"
    by (simp add: counters_def merge_stats_def)
  have m: "mset bs = mset cs \<longrightarrow> merge_all t bs = merge_all t cs"
    unfolding merge_all_def using foldl_merge_stats_mset by blast
  from f c m merge_stats_assoc [of t b c] merge_stats_right_commute [of t b c]
  show ?thesis by blast
qed

theorem merge_stats_order_witness:
  "mset [update_success ProcessingStats_init, update_error ProcessingStats_init]
     = mset [update_error ProcessingStats_init, update_success ProcessingStats_init]
   \<and> merge_all ProcessingStats_init [update_success ProcessingStats_init, update_error ProcessingStats_init]
     = merge_all ProcessingStats_init [update_error ProcessingStats_init, update_success ProcessingStats_init]
   \<and> total_processed (merge_all ProcessingStats_init
        [update_success ProcessingStats_init, update_error ProcessingStats_init]) = 2"
proof -
  have h: "mset [update_success ProcessingStats_init, update_error ProcessingStats_init]
     = mset [update_error ProcessingStats_init, update_success ProcessingStats_init]"
    by simp
  have e: "merge_all ProcessingStats_init [update_success ProcessingStats_init, update_error ProcessingStats_init]
     = merge_all ProcessingStats_init [update_error ProcessingStats_init, update_success ProcessingStats_init]"
    using merge_stats_fieldwise_assoc_commutative
      [of ProcessingStats_init _ _
          "[update_success ProcessingStats_init, update_error ProcessingStats_init]"
          "[update_error ProcessingStats_init, update_success ProcessingStats_init]"] h
    by blast
  have v: "total_processed (merge_all ProcessingStats_init
        [update_success ProcessingStats_init, update_error ProcessingStats_init]) = 2"
    by (simp add: merge_all_def merge_stats_def update_success_def update_error_def
        ProcessingStats_init_def)
  from h e v show ?thesis by blast
qed

text \<open>
  C8. The success rate is computed from the current counters at each call. When
  \<open>total_processed\<close> is zero it is \<open>0.0\<close>, whatever the division would do: the division
  is not consulted. Otherwise it is \<open>(successful / total_processed) * 100\<close> in the
  arithmetic of floats, the division taken at a divisor that is not zero. No call
  raises \<open>ZeroDivisionError\<close>.
\<close>

theorem success_rate_guarded:
  "success_rate ops s =
     (if total_processed s = 0 then Inr (float_zero ops)
      else (case int_truediv ops (successful s) (total_processed s) of
              None \<Rightarrow> Inl (OverflowError ''integer division result too large for a float'')
            | Some q \<Rightarrow> Inr (mul_int ops q 100)))
   \<and> (\<forall>m. success_rate ops s \<noteq> Inl (ZeroDivisionError m))
   \<and> success_rate ops (s\<lparr>total_processed := 0\<rparr>) = Inr (float_zero ops)
   \<and> success_rate (ops\<lparr>int_truediv := d\<rparr>) (s\<lparr>total_processed := 0\<rparr>)
       = success_rate ops (s\<lparr>total_processed := 0\<rparr>)"
  by (simp add: success_rate_def py_truediv_def split: option.splits)

section \<open>Properties of the batch planner\<close>

lemma div_step_shift:
  fixes a step :: int
  assumes "0 < step"
  shows "(a + step) div step = a div step + 1"
  using assms by simp

lemma py_range_up_closed:
  "0 < step \<Longrightarrow>
   py_range_up i stop step = map (\<lambda>k. i + int k * step) [0..<nat ((stop - i + step - 1) div step)]"
proof (induction i stop step rule: py_range_up.induct)
  case (1 i stop step)
  note pos = \<open>0 < step\<close>
  show ?case
  proof (cases "i < stop")
    case True
    have e1: "stop - i + step - 1 = (stop - i - 1) + step" by simp
    have e2: "stop - (i + step) + step - 1 = stop - i - 1" by simp
    have d: "(stop - i + step - 1) div step = (stop - (i + step) + step - 1) div step + 1"
      unfolding e1 e2 by (rule div_step_shift [OF pos])
    have "0 \<le> stop - (i + step) + step - 1" using True by simp
    then have nn: "0 \<le> (stop - (i + step) + step - 1) div step"
      using pos by (simp add: pos_imp_zdiv_nonneg_iff)
    have n: "nat ((stop - i + step - 1) div step) = Suc (nat ((stop - (i + step) + step - 1) div step))"
      using d nn by simp
    have ih: "py_range_up (i + step) stop step =
       map (\<lambda>k. i + step + int k * step) [0..<nat ((stop - (i + step) + step - 1) div step)]"
      using "1.IH" True pos by simp
    have "py_range_up i stop step = i # py_range_up (i + step) stop step"
      using True pos by simp
    also have "\<dots> = map (\<lambda>k. i + int k * step) [0..<Suc (nat ((stop - (i + step) + step - 1) div step))]"
      unfolding ih by (simp add: upt_conv_Cons map_Suc_upt [symmetric] algebra_simps del: upt_Suc)
    finally show ?thesis using n by simp
  next
    case False
    then have "stop - i + step - 1 \<le> step - 1" by simp
    then have "(stop - i + step - 1) div step \<le> (step - 1) div step"
      using pos by (rule zdiv_mono1)
    moreover have "(step - 1) div step = 0"
      using pos by (simp add: div_pos_pos_trivial)
    ultimately have "(stop - i + step - 1) div step \<le> 0" by simp
    then show ?thesis using False by simp
  qed
qed


lemma length_batches_loop: "length (batches_loop xs k n b) = length xs"
  by (induction xs arbitrary: k) simp_all

lemma nth_batches_loop:
  "i < length xs \<Longrightarrow>
   batches_loop xs k n b ! i =
     \<lparr>start_page = xs ! i, end_page = min (xs ! i + b - 1) n,
      batch_name = ''BATCH_'' @ format_03d (k + int i),
      max_concurrent = 12, retry_attempts = 3,
      delay_between_requests = 0.4, delay_between_pages = 1.5\<rparr>"
proof (induction xs arbitrary: k i)
  case Nil
  then show ?case by simp
next
  case (Cons x xs)
  show ?case
  proof (cases i)
    case 0
    then show ?thesis by simp
  next
    case (Suc j)
    with Cons.prems have "j < length xs" by simp
    from Cons.IH [OF this, of "k + 1"] Suc show ?thesis by (simp add: add.assoc)
  qed
qed


lemma create_batches_shape:
  assumes "1 \<le> n" "1 \<le> b"
  shows "create_batches n b = Inr (map (nth_batch n b) [0..<nat ((n - 1) div b + 1)])"
proof -
  have pos: "0 < b" using assms by simp
  have e: "n + 1 - 1 + b - 1 = (n - 1) + b" by simp
  have q: "(n + 1 - 1 + b - 1) div b = (n - 1) div b + 1"
    unfolding e by (rule div_step_shift [OF pos])
  let ?m = "nat ((n - 1) div b + 1)"
  have r: "py_range_up 1 (n + 1) b = map (\<lambda>k. 1 + int k * b) [0..<?m]"
    using py_range_up_closed [OF pos, of 1 "n + 1"] q by simp
  define xs where "xs = map (\<lambda>k. 1 + int k * b) [0..<?m]"
  have len: "length xs = ?m" by (simp add: xs_def)
  have "batches_loop xs 1 n b = map (nth_batch n b) [0..<?m]"
  proof (rule nth_equalityI)
    show "length (batches_loop xs 1 n b) = length (map (nth_batch n b) [0..<?m])"
      by (simp add: length_batches_loop len)
  next
    fix i
    assume "i < length (batches_loop xs 1 n b)"
    then have i: "i < ?m" by (simp add: length_batches_loop len)
    then have l: "i < length xs" by (simp add: len)
    have xi: "xs ! i = 1 + int i * b" using i by (simp add: xs_def)
    have e: "1 + int i * b + b - 1 = (int i + 1) * b" by (simp add: algebra_simps)
    have "batches_loop xs 1 n b ! i = nth_batch n b i"
      unfolding nth_batches_loop [OF l] xi e nth_batch_def by (simp add: add.commute)
    then show "batches_loop xs 1 n b ! i = map (nth_batch n b) [0..<?m] ! i"
      using i by simp
  qed
  then show ?thesis
    using pos r by (simp add: create_batches_def py_range_def xs_def)
qed

lemma quotient_bounds:
  fixes n b :: int
  assumes "1 \<le> n" "1 \<le> b"
  shows "0 \<le> (n - 1) div b" and "(n - 1) div b * b \<le> n - 1" and "n \<le> ((n - 1) div b + 1) * b"
proof -
  have pos: "0 < b" using assms by simp
  show "0 \<le> (n - 1) div b" using assms pos by (simp add: pos_imp_zdiv_nonneg_iff)
  have dm: "(n - 1) div b * b + (n - 1) mod b = n - 1" by simp
  have m0: "0 \<le> (n - 1) mod b" using pos by simp
  have m1: "(n - 1) mod b < b" using pos by simp
  show "(n - 1) div b * b \<le> n - 1" using dm m0 by linarith
  have "((n - 1) div b + 1) * b = (n - 1) div b * b + b" by (simp add: algebra_simps)
  then show "n \<le> ((n - 1) div b + 1) * b" using dm m1 by linarith
qed

lemma nth_batch_inner:
  assumes "1 \<le> n" "1 \<le> b" "int k + 1 \<le> (n - 1) div b"
  shows "end_page (nth_batch n b k) = (int k + 1) * b"
proof -
  have "(int k + 1) * b \<le> (n - 1) div b * b"
    using assms by (intro mult_right_mono) simp_all
  then have "(int k + 1) * b \<le> n" using quotient_bounds(2) [OF assms(1,2)] by linarith
  then show ?thesis by (simp add: nth_batch_def)
qed

lemma nth_batch_start_le:
  assumes "1 \<le> n" "1 \<le> b" "int k \<le> (n - 1) div b"
  shows "start_page (nth_batch n b k) \<le> n"
proof -
  have "int k * b \<le> (n - 1) div b * b"
    using assms by (intro mult_right_mono) simp_all
  then have "1 + int k * b \<le> n" using quotient_bounds(2) [OF assms(1,2)] by linarith
  then show ?thesis by (simp add: nth_batch_def)
qed

lemma nth_batch_last:
  assumes "1 \<le> n" "1 \<le> b"
  shows "end_page (nth_batch n b (nat ((n - 1) div b))) = n"
  using quotient_bounds [OF assms] by (simp add: nth_batch_def)

lemma nth_batch_size:
  assumes "1 \<le> b"
  shows "end_page (nth_batch n b k) \<le> start_page (nth_batch n b k) + b - 1"
  by (simp add: nth_batch_def algebra_simps)

lemma nth_batch_nonempty:
  assumes "1 \<le> n" "1 \<le> b" "int k \<le> (n - 1) div b"
  shows "start_page (nth_batch n b k) \<le> end_page (nth_batch n b k)"
proof -
  have "1 + int k * b \<le> n" using nth_batch_start_le [OF assms] by (simp add: nth_batch_def)
  moreover have "1 + int k * b \<le> (int k + 1) * b" using assms(2) by (simp add: algebra_simps)
  ultimately show ?thesis by (simp add: nth_batch_def)
qed

lemma nth_batch_disjoint:
  assumes "1 \<le> b" "i < j"
  shows "pages_of (nth_batch n b i) \<inter> pages_of (nth_batch n b j) = {}"
proof -
  have "int i + 1 \<le> int j" using assms(2) by simp
  then have "(int i + 1) * b \<le> int j * b"
    using assms(1) by (intro mult_right_mono) simp_all
  then have "end_page (nth_batch n b i) < start_page (nth_batch n b j)"
    by (simp add: nth_batch_def)
  then show ?thesis by (auto simp: pages_of_def)
qed

lemma nth_batch_cover:
  assumes "1 \<le> n" "1 \<le> b" "1 \<le> x" "x \<le> n"
  shows "\<exists>k < nat ((n - 1) div b + 1). x \<in> pages_of (nth_batch n b k)"
proof -
  have pos: "0 < b" using assms by simp
  let ?k = "nat ((x - 1) div b)"
  have k0: "0 \<le> (x - 1) div b" using quotient_bounds(1) [OF assms(3,2)] .
  have "(x - 1) div b \<le> (n - 1) div b"
    using assms pos by (intro zdiv_mono1) simp_all
  then have kl: "?k < nat ((n - 1) div b + 1)" using k0 by simp
  have lo: "1 + int ?k * b \<le> x" using quotient_bounds(2) [OF assms(3,2)] k0 by simp
  have hi: "x \<le> (int ?k + 1) * b" using quotient_bounds(3) [OF assms(3,2)] k0 by simp
  have "x \<in> pages_of (nth_batch n b ?k)"
    using lo hi assms(4) by (simp add: pages_of_def nth_batch_def)
  with kl show ?thesis by blast
qed

text \<open>
  C3. For \<open>n_pages \<ge> 1\<close> and \<open>batch_size \<ge> 1\<close>, \<open>create_batches\<close> returns (without
  raising) a non-empty list of batches: the first starts at page 1, the last ends at
  \<open>n_pages\<close>, each batch but the last holds exactly \<open>batch_size\<close> pages and the next one
  starts on the page after its end; every batch holds at least one and at most
  \<open>batch_size\<close> pages; the \<open>i\<close>-th batch (counting from 0) is named \<open>BATCH_\<close> followed by
  \<open>i + 1\<close> zero-padded to three digits; the page ranges are pairwise disjoint and their
  union is exactly \<open>{1..n_pages}\<close>. The result is a function of the two arguments alone.
\<close>

theorem create_batches_partition:
  assumes "1 \<le> n_pages" and "1 \<le> batch_size"
  shows "\<exists>bs. create_batches n_pages batch_size = Inr bs
     \<and> bs \<noteq> []
     \<and> start_page (hd bs) = 1
     \<and> end_page (last bs) = n_pages
     \<and> (\<forall>i. Suc i < length bs \<longrightarrow>
            end_page (bs ! i) = start_page (bs ! i) + batch_size - 1
          \<and> start_page (bs ! Suc i) = end_page (bs ! i) + 1)
     \<and> (\<forall>i. i < length bs \<longrightarrow>
            start_page (bs ! i) \<le> end_page (bs ! i)
          \<and> end_page (bs ! i) \<le> start_page (bs ! i) + batch_size - 1
          \<and> batch_name (bs ! i) = ''BATCH_'' @ format_03d (int i + 1))
     \<and> (\<forall>i j. i < j \<and> j < length bs \<longrightarrow> pages_of (bs ! i) \<inter> pages_of (bs ! j) = {})
     \<and> (\<Union>c \<in> set bs. pages_of c) = {1..n_pages}"
proof -
  let ?q = "(n_pages - 1) div batch_size"
  define m where "m = nat (?q + 1)"
  define bs where "bs = map (nth_batch n_pages batch_size) [0..<m]"
  have q0: "0 \<le> ?q" using quotient_bounds(1) [OF assms] .
  have m: "m = Suc (nat ?q)" using q0 by (simp add: m_def)
  have len: "length bs = m" by (simp add: bs_def)
  have nth: "\<And>i. i < m \<Longrightarrow> bs ! i = nth_batch n_pages batch_size i" by (simp add: bs_def)
  have iq: "\<And>i. i < m \<Longrightarrow> int i \<le> ?q" using q0 by (simp add: m_def)
  have c1: "create_batches n_pages batch_size = Inr bs"
    unfolding bs_def m_def by (rule create_batches_shape [OF assms])
  have c2: "bs \<noteq> []" using len m by auto
  have m0: "0 < m" using m by simp
  have "hd bs = bs ! 0" using c2 by (rule hd_conv_nth)
  then have c3: "start_page (hd bs) = 1" using nth [OF m0] by (simp add: nth_batch_def)
  have ml: "m - 1 < m" using m by simp
  have "last bs = bs ! (m - 1)" using c2 last_conv_nth [of bs] len by simp
  also have "\<dots> = nth_batch n_pages batch_size (m - 1)" by (rule nth [OF ml])
  also have "m - 1 = nat ?q" using m by simp
  finally have c4: "end_page (last bs) = n_pages" using nth_batch_last [OF assms] by simp
  have c5: "\<forall>i. Suc i < length bs \<longrightarrow>
            end_page (bs ! i) = start_page (bs ! i) + batch_size - 1
          \<and> start_page (bs ! Suc i) = end_page (bs ! i) + 1"
  proof (intro allI impI)
    fix i assume "Suc i < length bs"
    then have s: "Suc i < m" by (simp add: len)
    then have i: "i < m" by simp
    have "int (Suc i) \<le> ?q" using iq [OF s] .
    then have e: "end_page (nth_batch n_pages batch_size i) = (int i + 1) * batch_size"
      using nth_batch_inner [OF assms, of i] by simp
    have "start_page (nth_batch n_pages batch_size i) = 1 + int i * batch_size"
      by (simp add: nth_batch_def)
    moreover have "start_page (nth_batch n_pages batch_size (Suc i)) = 1 + (int i + 1) * batch_size"
      by (simp add: nth_batch_def)
    ultimately show "end_page (bs ! i) = start_page (bs ! i) + batch_size - 1
          \<and> start_page (bs ! Suc i) = end_page (bs ! i) + 1"
      unfolding nth [OF s] nth [OF i] e by (simp add: algebra_simps)
  qed
  have c6: "\<forall>i. i < length bs \<longrightarrow>
            start_page (bs ! i) \<le> end_page (bs ! i)
          \<and> end_page (bs ! i) \<le> start_page (bs ! i) + batch_size - 1
          \<and> batch_name (bs ! i) = ''BATCH_'' @ format_03d (int i + 1)"
  proof (intro allI impI)
    fix i assume "i < length bs"
    then have i: "i < m" by (simp add: len)
    have "batch_name (nth_batch n_pages batch_size i) = ''BATCH_'' @ format_03d (int i + 1)"
      by (simp add: nth_batch_def)
    then show "start_page (bs ! i) \<le> end_page (bs ! i)
          \<and> end_page (bs ! i) \<le> start_page (bs ! i) + batch_size - 1
          \<and> batch_name (bs ! i) = ''BATCH_'' @ format_03d (int i + 1)"
      unfolding nth [OF i]
      using nth_batch_nonempty [OF assms iq [OF i]] nth_batch_size [OF assms(2), of n_pages i]
      by blast
  qed
  have c7: "\<forall>i j. i < j \<and> j < length bs \<longrightarrow> pages_of (bs ! i) \<inter> pages_of (bs ! j) = {}"
  proof (intro allI impI)
    fix i j assume ij: "i < j \<and> j < length bs"
    then have j: "j < m" and i: "i < m" by (simp_all add: len)
    show "pages_of (bs ! i) \<inter> pages_of (bs ! j) = {}"
      unfolding nth [OF i] nth [OF j] using nth_batch_disjoint [OF assms(2)] ij by blast
  qed
  have c8: "(\<Union>c \<in> set bs. pages_of c) = {1..n_pages}"
  proof (intro set_eqI iffI)
    fix x assume "x \<in> (\<Union>c \<in> set bs. pages_of c)"
    then obtain k where k: "k < m" and x: "x \<in> pages_of (nth_batch n_pages batch_size k)"
      by (auto simp: bs_def)
    have "1 \<le> start_page (nth_batch n_pages batch_size k)"
      using assms(2) by (simp add: nth_batch_def)
    moreover have "end_page (nth_batch n_pages batch_size k) \<le> n_pages"
      by (simp add: nth_batch_def)
    ultimately show "x \<in> {1..n_pages}" using x by (simp add: pages_of_def)
  next
    fix x assume "x \<in> {1..n_pages}"
    then have "1 \<le> x" "x \<le> n_pages" by simp_all
    from nth_batch_cover [OF assms this]
    obtain k where "k < m" "x \<in> pages_of (nth_batch n_pages batch_size k)"
      unfolding m_def by blast
    then show "x \<in> (\<Union>c \<in> set bs. pages_of c)" by (auto simp: bs_def)
  qed
  from c1 c2 c3 c4 c5 c6 c7 c8 show ?thesis by blast
qed

theorem create_batches_partition_witness:
  "(1::int) \<le> 5 \<and> (1::int) \<le> 2
   \<and> (\<exists>bs. create_batches 5 2 = Inr bs
        \<and> map (\<lambda>c. (start_page c, end_page c, batch_name c)) bs
            = [(1, 2, ''BATCH_001''), (3, 4, ''BATCH_002''), (5, 5, ''BATCH_003'')]
        \<and> (\<Union>c \<in> set bs. pages_of c) = {1..5})"
proof -
  have a: "(1::int) \<le> 5" and b: "(1::int) \<le> 2" by simp_all
  from create_batches_partition [OF a b]
  obtain bs where bs: "create_batches 5 2 = Inr bs"
    and u: "(\<Union>c \<in> set bs. pages_of c) = {1..5}" by blast
  have "create_batches 5 2 = Inr (batches_loop [1, 3, 5] 1 5 2)"
    by (simp add: create_batches_def py_range_def)
  with bs have "bs = batches_loop [1, 3, 5] 1 5 2" by simp
  moreover have "format_03d 1 = ''001''" "format_03d 2 = ''002''" "format_03d 3 = ''003''"
    by code_simp+
  ultimately have l: "map (\<lambda>c. (start_page c, end_page c, batch_name c)) bs
            = [(1, 2, ''BATCH_001''), (3, 4, ''BATCH_002''), (5, 5, ''BATCH_003'')]"
    by simp
  show ?thesis
    by (intro conjI exI [of _ bs]) (rule a b bs l u)+
qed

section \<open>Properties of the classification\<close>

lemma from_text_canonical:
  "from_text (Some ''PEI'') = SchoolClassification PEI
   \<and> from_text (Some '' pEi '') = SchoolClassification PEI
   \<and> from_text (Some ''ee'') = SchoolClassification EE
   \<and> from_text (Some ''Ee'') = SchoolClassification EE
   \<and> from_text (Some []) = SchoolClassification UNKNOWN
   \<and> from_text None = SchoolClassification UNKNOWN"
  by code_simp

lemma from_text_general:
  "from_text (Some t) =
     (if t = [] then SchoolClassification ''UNKNOWN''
      else SchoolClassification (py_upper (py_strip t)))"
  by (simp add: from_text_def PEI_def EE_def UNKNOWN_def Let_def)

text \<open>
  C2. The claim says that a text other than \<open>PEI\<close> and \<open>EE\<close> is kept verbatim. The code
  keeps the stripped, upper-cased text instead: the spec's example, \<open>Colegio Estadual\<close>
  written with e acute (\<open>U+00E9\<close>), becomes the same words in capitals (with
  \<open>U+00C9\<close>); \<open>Tecnica\<close> becomes \<open>TECNICA\<close>; surrounding blanks are lost; and a text of
  blanks only becomes the empty classification, neither \<open>UNKNOWN\<close> nor the text itself.
\<close>

theorem from_text_uppercases_other_text:
  "from_text (Some (''Col'' @ [CHR 0xE9] @ ''gio Estadual''))
     = SchoolClassification (''COL'' @ [CHR 0xC9] @ ''GIO ESTADUAL'')
   \<and> from_text (Some (''Col'' @ [CHR 0xE9] @ ''gio Estadual''))
     \<noteq> SchoolClassification (''Col'' @ [CHR 0xE9] @ ''gio Estadual'')
   \<and> from_text (Some ''Tecnica'') = SchoolClassification ''TECNICA''
   \<and> from_text (Some '' Rural '') = SchoolClassification ''RURAL''
   \<and> from_text (Some ''  '') = SchoolClassification []"
  by code_simp

section \<open>Properties of the storage\<close>

text \<open>
  C10. While \<open>_csv_writer\<close> is unset (as it is until \<open>initialize_csv\<close> has run),
  \<open>write_school_data\<close> raises \<open>RuntimeError\<close> with the text that the file is not
  initialized, and so does \<open>write_single_school\<close>, which calls it first; the storage, its
  file system included, is left exactly as it was.
\<close>

theorem write_before_initialize_raises:
  assumes "csv_writer s = None"
  shows "write_school_data s r =
           (Some (RuntimeError ''CSV file not initialized. Call initialize_csv() first.''), s)
       \<and> write_single_school s r =
           (Some (RuntimeError ''CSV file not initialized. Call initialize_csv() first.''), s)"
  using assms by (simp add: write_school_data_def write_single_school_def)

theorem write_before_initialize_witness:
  "csv_writer (CSVStorage_init ''results'' Map.empty) = None
   \<and> write_single_school (CSVStorage_init ''results'' Map.empty) (error_school [] [] [])
       = (Some (RuntimeError ''CSV file not initialized. Call initialize_csv() first.''),
          CSVStorage_init ''results'' Map.empty)"
proof -
  have h: "csv_writer (CSVStorage_init ''results'' Map.empty) = None"
    by (simp add: CSVStorage_init_def)
  from write_before_initialize_raises [OF h, of "error_school [] [] []"] h
  show ?thesis by blast
qed

lemma close_open_file:
  assumes "csv_file s = Some f" "\<not> f_closed f"
  shows "close s =
     (None, s\<lparr>csv_file := Some (f\<lparr>f_buffer := [], f_closed := True\<rparr>),
              disk := (disk s)(f_path f \<mapsto> (case disk s (f_path f) of None \<Rightarrow> [] | Some c \<Rightarrow> c) @ f_buffer f),
              fsyncs := fsyncs s @ [f_path f]\<rparr>)"
  using assms
  by (simp add: close_def file_flush_def file_fileno_def file_close_def)

lemma close_closed_file:
  assumes "csv_file s = Some f" "f_closed f"
  shows "close s = (Some closed_file_error, s)"
  using assms by (simp add: close_def file_flush_def)

text \<open>
  C4. The claim says that a second \<open>close\<close> is a no-op that raises nothing. In the code
  the first \<open>close\<close> of an initialized storage returns normally after one \<open>fsync\<close>, but
  leaves the closed file object in \<open>_csv_file\<close>; the second \<open>close\<close> passes the test
  \<open>if self._csv_file\<close>, and its \<open>flush\<close> raises \<open>ValueError\<close>. The state is unchanged by
  the second call (no second \<open>fsync\<close>), but the call does raise.
\<close>

theorem second_close_raises:
  "fst (close (snd (initialize_csv (CSVStorage_init dir d) fname ts))) = None
   \<and> close (snd (close (snd (initialize_csv (CSVStorage_init dir d) fname ts))))
       = (Some (ValueError ''I/O operation on closed file.''),
          snd (close (snd (initialize_csv (CSVStorage_init dir d) fname ts))))
   \<and> fsyncs (snd (close (snd (initialize_csv (CSVStorage_init dir d) fname ts))))
       = [fst (initialize_csv (CSVStorage_init dir d) fname ts)]"
proof -
  define s1 where "s1 = snd (initialize_csv (CSVStorage_init dir d) fname ts)"
  define p where "p = fst (initialize_csv (CSVStorage_init dir d) fname ts)"
  define f where "f = \<lparr>f_path = p, f_buffer = csv_record fieldnames, f_closed = False\<rparr>"
  have f1: "csv_file s1 = Some f"
    by (simp add: s1_def f_def p_def initialize_csv_def Let_def)
  have nc: "\<not> f_closed f" by (simp add: f_def)
  have fs: "fsyncs s1 = []"
    by (simp add: s1_def initialize_csv_def Let_def CSVStorage_init_def)
  note c1 = close_open_file [OF f1 nc]
  have a: "fst (close s1) = None" by (simp add: c1)
  have f2: "csv_file (snd (close s1)) = Some (f\<lparr>f_buffer := [], f_closed := True\<rparr>)"
    by (simp add: c1)
  have "close (snd (close s1)) = (Some closed_file_error, snd (close s1))"
    by (rule close_closed_file [OF f2]) simp
  then have b: "close (snd (close s1)) = (Some (ValueError ''I/O operation on closed file.''), snd (close s1))"
    by (simp add: closed_file_error_def)
  have c: "fsyncs (snd (close s1)) = [p]" by (simp add: c1 fs f_def)
  from a b c show ?thesis unfolding s1_def p_def by blast
qed

section \<open>Properties of the integrity check\<close>





































lemma universal_newlines_length: "length (universal_newlines s) \<le> length s"
  by (induction s rule: universal_newlines.induct) auto

lemma universal_newlines_hd: "c \<noteq> CR \<Longrightarrow> \<exists>t. universal_newlines (c # cs) = c # t"
  by (cases cs) auto












lemma file_content_cases:
  "file_content s = None \<longleftrightarrow> filename s = None \<or> (\<exists>p. filename s = Some p \<and> disk s p = None)"
  by (auto simp: file_content_def split: option.splits)










section \<open>Properties of the navigation\<close>

text \<open>
  C9. The claim says that the function returns true as soon as the current page has
  reached the target. The loop tests this only at the start of an attempt: when the
  page counter reaches the target through the last permitted attempt (attempt
  \<open>target + 5\<close>), the loop ends and the function returns false. For target 2, with six
  clicks whose content is not verified in time and a seventh that is, the counter stands
  at 2 and the result is false; had the sixth click been the verified one, the result
  would be true.
\<close>

theorem navigate_late_success_reported_as_failure:
  "navigate_to_page_robust (late_load_env 6) 2
     = \<lparr>reached = False, current_page = 2, clicks = 7, page_size_set = False\<rparr>
   \<and> navigate_to_page_robust (late_load_env 5) 2
     = \<lparr>reached = True, current_page = 2, clicks = 6, page_size_set = False\<rparr>"
  by code_simp

section \<open>Properties of the page run\<close>

lemma is_returns_count:
  "length (collect_results rs) = length (filter (\<lambda>r. case r of Returns d \<Rightarrow> True | Raises e \<Rightarrow> False) rs)"
  by (induction rs rule: collect_results.induct) simp_all

text \<open>
  C1. The claim says that a reference whose fetch exhausts its retries yields a record
  with status \<open>ERROR\<close>. In the code \<open>process_page_parallel\<close> appends only the
  dictionaries among the gathered results to \<open>page_results\<close> and logs the exceptions; the
  failed reference reaches neither \<open>process_school_data\<close> nor the storage. For page 1
  with three references, the second failing at every attempt, the run keeps two records,
  both \<open>SUCCESS\<close>, for the first and the third reference; the counters are
  \<open>total_processed = 2\<close>, \<open>successful = 2\<close>, \<open>errors = 0\<close>; and the file holds the header
  and two rows.
\<close>

theorem failed_fetch_yields_no_record:
  "run_summary (process_page ''2025-01-01T00:00:00'' three_links_env 1 fresh_scraper)
     = (None,
        [(SUCCESS, ''/Home/DetalhesEscola?codesc=1''), (SUCCESS, ''/Home/DetalhesEscola?codesc=3'')],
        2, 2, 0,
        Some (csv_record fieldnames
          @ csv_record [''EE Escola'', ''PEI'', ''/Home/DetalhesEscola?codesc=1'',
              ''2025-01-01T00:00:00'', ''SUCCESS'', [], [], [], [], [], [], [], [], [], [],
              [], [], [], [], [], [], [], [], [], [], [], [], []]
          @ csv_record [''EE Escola'', ''PEI'', ''/Home/DetalhesEscola?codesc=3'',
              ''2025-01-01T00:00:00'', ''SUCCESS'', [], [], [], [], [], [], [], [], [], [],
              [], [], [], [], [], [], [], [], [], [], [], [], []]))"
  by code_simp


lemma process_school_data_counts:
  "process_school_data now st d = (school, st') \<Longrightarrow>
   total_processed st' = total_processed st + 1
   \<and> (status school = SUCCESS \<and> successful st' = successful st + 1 \<and> errors st' = errors st
      \<or> status school = ERROR \<and> errors st' = errors st + 1 \<and> successful st' = successful st)"
  by (auto simp: process_school_data_def school_of_raw_def error_school_def
      update_success_def update_error_def split: sum.splits)

lemma save_page_results_counts:
  "save_page_results now st ds = (None, st') \<Longrightarrow>
   length (all_schools st') = length (all_schools st) + length ds
   \<and> total_processed (stats st') = total_processed (stats st) + int (length ds)"
proof (induction ds arbitrary: st)
  case Nil
  then show ?case by simp
next
  case (Cons d ds)
  obtain school s1 where p: "process_school_data now (stats st) d = (school, s1)"
    by (cases "process_school_data now (stats st) d")
  obtain e sto where w: "write_single_school (storage st) school = (e, sto)"
    by (cases "write_single_school (storage st) school")
  let ?st1 = "st\<lparr>stats := s1, all_schools := all_schools st @ [school], storage := sto\<rparr>"
  from Cons.prems p w have e: "e = None" by (cases e) simp_all
  with Cons.prems p w have r: "save_page_results now ?st1 ds = (None, st')" by simp
  from Cons.IH [OF r] process_school_data_counts [OF p]
  show ?case by simp
qed

end
